theory Spec2Isabelle
  imports Main
begin

section \<open>Strings\<close>

text \<open>
  Python's \<^verbatim>\<open>s.startswith(p)\<close>, \<^verbatim>\<open>s.endswith(p)\<close> and \<^verbatim>\<open>p in s\<close> on
  strings, as executable functions on character lists.
\<close>

fun startswith :: "string \<Rightarrow> string \<Rightarrow> bool" where
  "startswith s [] = True"
| "startswith [] (p # ps) = False"
| "startswith (c # cs) (p # ps) = (c = p \<and> startswith cs ps)"

definition endswith :: "string \<Rightarrow> string \<Rightarrow> bool" where
  "endswith s p = startswith (rev s) (rev p)"

fun str_contains :: "string \<Rightarrow> string \<Rightarrow> bool" where
  "str_contains [] p = (p = [])"
| "str_contains (c # cs) p = (startswith (c # cs) p \<or> str_contains cs p)"

section \<open>Exceptions and the log\<close>

text \<open>
  The exceptions the two methods tell apart in their \<^verbatim>\<open>except\<close> clauses. Each value
  carries \<^verbatim>\<open>str(e)\<close>; a \<^verbatim>\<open>ValidationError\<close> carries \<^verbatim>\<open>e.message\<close> as well.
  \<open>OtherException\<close> stands for every other instance of \<^verbatim>\<open>Exception\<close>
  (\<^verbatim>\<open>PermissionError\<close>, \<^verbatim>\<open>UnicodeDecodeError\<close>, \<^verbatim>\<open>SchemaError\<close>, ...).
  None of the listed classes is a subclass of another, so the order of the
  \<^verbatim>\<open>except\<close> clauses only matters for the final catch-all.
\<close>

datatype exn =
    FileNotFoundError string
  | CalledProcessError string
  | YAMLError string
  | JSONDecodeError string
  | ValidationError string string
  | OtherException string

fun str_of :: "exn \<Rightarrow> string" where
  "str_of (FileNotFoundError s) = s"
| "str_of (CalledProcessError s) = s"
| "str_of (YAMLError s) = s"
| "str_of (JSONDecodeError s) = s"
| "str_of (ValidationError s m) = s"
| "str_of (OtherException s) = s"

text \<open>
  A log record is the level and the formatted message handed to the logger.
  \<^verbatim>\<open>logger.exception\<close> logs at level ERROR.
\<close>

datatype level = INFO | ERROR

type_synonym log = "(level \<times> string) list"

section \<open>The environment\<close>

text \<open>
  Everything the methods read from outside:
  \<^item> \<open>subprocess_run argv\<close>: \<^verbatim>\<open>subprocess.run(argv, capture_output=True, text=True)\<close>,
    which raises or yields the return code of the process;
  \<^item> \<open>path_exists p\<close>: \<^verbatim>\<open>os.path.exists(p)\<close>;
  \<^item> \<open>read_file p\<close>: \<^verbatim>\<open>open(p, 'r')\<close> followed by reading the whole text, which
    raises or yields the text;
  \<^item> \<open>yaml_safe_load\<close>, \<open>json_load\<close>: the parsers of the \<^verbatim>\<open>yaml\<close> and \<^verbatim>\<open>json\<close>
    libraries, applied to a file's text; they raise or yield a document of type \<open>'d\<close>;
  \<^item> \<open>validate instance schema\<close>: \<^verbatim>\<open>jsonschema.validate\<close>, which raises or returns
    nothing.
  The libraries are not part of the program; they are parameters here.
\<close>

record 'd env =
  subprocess_run :: "string list \<Rightarrow> exn + int"
  path_exists :: "string \<Rightarrow> bool"
  read_file :: "string \<Rightarrow> exn + string"
  yaml_safe_load :: "string \<Rightarrow> exn + 'd"
  json_load :: "string \<Rightarrow> exn + 'd"
  validate :: "'d \<Rightarrow> 'd \<Rightarrow> exn + unit"

section \<open>check_unattended_upgrades\<close>

definition dpkg_argv :: "string list" where
  "dpkg_argv = [''dpkg'', ''-s'', ''unattended-upgrades'']"

definition auto_upgrades_file :: string where
  "auto_upgrades_file = ''/etc/apt/apt.conf.d/50unattended-upgrades''"

definition auto_updates_file :: string where
  "auto_updates_file = ''/etc/apt/apt.conf.d/20auto-upgrades''"

definition allowed_origins_key :: string where
  "allowed_origins_key = ''Unattended-Upgrade::Allowed-Origins''"

definition update_package_lists :: string where
  \<open>update_package_lists = ''APT::Periodic::Update-Package-Lists "1";''\<close>

definition periodic_unattended_upgrade :: string where
  \<open>periodic_unattended_upgrade = ''APT::Periodic::Unattended-Upgrade "1";''\<close>

text \<open>Lines 49 to 59: the second configuration file.\<close>

definition check_auto_updates :: "'d env \<Rightarrow> exn + (bool \<times> string)" where
  "check_auto_updates env =
     (if \<not> path_exists env auto_updates_file
      then Inr (False, ''Configuration file not found: '' @ auto_updates_file)
      else (case read_file env auto_updates_file of
        Inl e \<Rightarrow> Inl e
      | Inr auto_updates_content \<Rightarrow>
          if \<not> str_contains auto_updates_content update_package_lists
             \<or> \<not> str_contains auto_updates_content periodic_unattended_upgrade
          then Inr (False, ''Automatic updates are not enabled in APT::Periodic.'')
          else Inr (True, ''Unattended upgrades are enabled and properly configured.'')))"

text \<open>Lines 32 to 59: the body of the \<^verbatim>\<open>try\<close> block; \<open>Inl\<close> is a raised exception.\<close>

definition check_body :: "'d env \<Rightarrow> exn + (bool \<times> string)" where
  "check_body env =
     (case subprocess_run env dpkg_argv of
        Inl e \<Rightarrow> Inl e
      | Inr returncode \<Rightarrow>
          if returncode \<noteq> 0
          then Inr (False, ''Unattended upgrades package is not installed.'')
          else if \<not> path_exists env auto_upgrades_file
          then Inr (False, ''Configuration file not found: '' @ auto_upgrades_file)
          else (case read_file env auto_upgrades_file of
            Inl e \<Rightarrow> Inl e
          | Inr content \<Rightarrow>
              if \<not> str_contains content allowed_origins_key
              then Inr (False, ''Unattended-Upgrade::Allowed-Origins not properly configured.'')
              else check_auto_updates env))"

text \<open>Lines 61 to 69: the handlers.\<close>

fun check_handler :: "exn \<Rightarrow> (bool \<times> string) \<times> log" where
  "check_handler (FileNotFoundError s) =
     ((False, ''Error: File not found: '' @ s), [(ERROR, ''File not found: '' @ s)])"
| "check_handler (CalledProcessError s) =
     ((False, ''Error: Subprocess error: '' @ s), [(ERROR, ''Subprocess error: '' @ s)])"
| "check_handler e =
     ((False, ''Error: An unexpected error occurred: '' @ str_of e),
      [(ERROR, ''An unexpected error occurred: '' @ str_of e)])"

text \<open>The method: the returned pair \<open>(enabled, status_message)\<close> and what it logged.\<close>

definition check_unattended_upgrades :: "'d env \<Rightarrow> (bool \<times> string) \<times> log" where
  "check_unattended_upgrades env =
     (case check_body env of
        Inr verdict \<Rightarrow> (verdict, [])
      | Inl e \<Rightarrow> check_handler e)"

section \<open>audit_config_file\<close>

text \<open>
  Lines 94 to 99: load the schema, validate, report success. \<open>Inl\<close> is a raised
  exception; \<open>Inr\<close> is the returned value with what was logged.
\<close>

definition audit_validate :: "'d env \<Rightarrow> string \<Rightarrow> string \<Rightarrow> 'd \<Rightarrow> exn + (bool \<times> log)" where
  "audit_validate env config_file schema_file config_data =
     (case read_file env schema_file of
        Inl e \<Rightarrow> Inl e
      | Inr schema_text \<Rightarrow>
          (case json_load env schema_text of
            Inl e \<Rightarrow> Inl e
          | Inr schema_data \<Rightarrow>
              (case validate env config_data schema_data of
                Inl e \<Rightarrow> Inl e
              | Inr u \<Rightarrow>
                  Inr (True, [(INFO, ''Configuration file '' @ [CHR 0x27] @ config_file
                     @ [CHR 0x27] @ '' is valid against the schema.'')]))))"

text \<open>Lines 83 to 99: the body of the \<^verbatim>\<open>try\<close> block.\<close>

definition audit_body :: "'d env \<Rightarrow> string \<Rightarrow> string \<Rightarrow> exn + (bool \<times> log)" where
  "audit_body env config_file schema_file =
     (if endswith config_file ''.yaml'' \<or> endswith config_file ''.yml''
      then (case read_file env config_file of
             Inl e \<Rightarrow> Inl e
           | Inr text \<Rightarrow>
               (case yaml_safe_load env text of
                 Inl e \<Rightarrow> Inl e
               | Inr config_data \<Rightarrow> audit_validate env config_file schema_file config_data))
      else if endswith config_file ''.json''
      then (case read_file env config_file of
             Inl e \<Rightarrow> Inl e
           | Inr text \<Rightarrow>
               (case json_load env text of
                 Inl e \<Rightarrow> Inl e
               | Inr config_data \<Rightarrow> audit_validate env config_file schema_file config_data))
      else Inr (False,
        [(ERROR, ''Unsupported configuration file type. Only YAML and JSON are supported.'')]))"

text \<open>Lines 101 to 116: the handlers.\<close>

fun audit_handler :: "exn \<Rightarrow> bool \<times> log" where
  "audit_handler (FileNotFoundError s) = (False, [(ERROR, ''File not found: '' @ s)])"
| "audit_handler (YAMLError s) = (False, [(ERROR, ''YAML parsing error: '' @ s)])"
| "audit_handler (JSONDecodeError s) = (False, [(ERROR, ''JSON parsing error: '' @ s)])"
| "audit_handler (ValidationError s m) =
     (False, [(ERROR, ''Validation error: '' @ s), (ERROR, ''Error message: '' @ m)])"
| "audit_handler e = (False, [(ERROR, ''An unexpected error occurred: '' @ str_of e)])"

text \<open>The method: the returned boolean and what it logged.\<close>

definition audit_config_file :: "'d env \<Rightarrow> string \<Rightarrow> string \<Rightarrow> bool \<times> log" where
  "audit_config_file env config_file schema_file =
     (case audit_body env config_file schema_file of
        Inr result \<Rightarrow> result
      | Inl e \<Rightarrow> audit_handler e)"

section \<open>Vocabulary of the specification\<close>

text \<open>
  The specification numbers the detection steps of the upgrade check: 1 the package
  query, 2 the first configuration file exists, 3 its text holds the allowed-origins
  key, 4 the second configuration file exists, 5 its text holds both periodic
  directives. \<open>step_input env k\<close> is what step \<open>k\<close> consumes from the environment,
  and \<open>step_fails env k\<close> says that step \<open>k\<close>, run on its own, does not pass
  (a raised exception counts as not passing).
\<close>

datatype observation = Ran "exn + int" | Exists bool | Read "exn + string"

definition step_input :: "'d env \<Rightarrow> nat \<Rightarrow> observation" where
  "step_input env k =
     (if k = 1 then Ran (subprocess_run env dpkg_argv)
      else if k = 2 then Exists (path_exists env auto_upgrades_file)
      else if k = 3 then Read (read_file env auto_upgrades_file)
      else if k = 4 then Exists (path_exists env auto_updates_file)
      else Read (read_file env auto_updates_file))"

definition step_fails :: "'d env \<Rightarrow> nat \<Rightarrow> bool" where
  "step_fails env k =
     (if k = 1 then (case subprocess_run env dpkg_argv of
                       Inl e \<Rightarrow> True | Inr returncode \<Rightarrow> returncode \<noteq> 0)
      else if k = 2 then \<not> path_exists env auto_upgrades_file
      else if k = 3 then (case read_file env auto_upgrades_file of
                            Inl e \<Rightarrow> True
                          | Inr content \<Rightarrow> \<not> str_contains content allowed_origins_key)
      else if k = 4 then \<not> path_exists env auto_updates_file
      else (case read_file env auto_updates_file of
              Inl e \<Rightarrow> True
            | Inr content \<Rightarrow> \<not> str_contains content update_package_lists
                \<or> \<not> str_contains content periodic_unattended_upgrade))"

definition first_failing_step :: "'d env \<Rightarrow> nat \<Rightarrow> bool" where
  "first_failing_step env k =
     (1 \<le> k \<and> k \<le> 5 \<and> step_fails env k \<and> (\<forall>j \<in> {1..<k}. \<not> step_fails env j))"

definition agree_upto :: "'d env \<Rightarrow> 'd env \<Rightarrow> nat \<Rightarrow> bool" where
  "agree_upto env env' k = (\<forall>j \<in> {1..k}. step_input env j = step_input env' j)"

text \<open>
  The verdict step \<open>k\<close> gives when it is the one that fails, as a function of the
  step number and of what that step consumed.
\<close>

definition step_verdict :: "nat \<Rightarrow> observation \<Rightarrow> bool \<times> string" where
  "step_verdict k input =
     (case input of
        Ran (Inl e) \<Rightarrow> fst (check_handler e)
      | Ran (Inr returncode) \<Rightarrow> (False, ''Unattended upgrades package is not installed.'')
      | Exists b \<Rightarrow>
          (False, ''Configuration file not found: ''
             @ (if k = 2 then auto_upgrades_file else auto_updates_file))
      | Read (Inl e) \<Rightarrow> fst (check_handler e)
      | Read (Inr content) \<Rightarrow>
          (False, if k = 3 then ''Unattended-Upgrade::Allowed-Origins not properly configured.''
                  else ''Automatic updates are not enabled in APT::Periodic.''))"

text \<open>Letter case, for file-name suffixes that differ from a supported one by case only.\<close>

definition lower_char :: "char \<Rightarrow> char" where
  "lower_char c =
     (if (65::nat) \<le> of_char c \<and> of_char c \<le> (90::nat)
      then char_of (of_char c + (32::nat)) else c)"

definition lower :: "string \<Rightarrow> string" where
  "lower s = map lower_char s"

section \<open>Documents and the validator\<close>

text \<open>Parsed documents as JSON trees.\<close>

datatype json = JNull | JInt int | JStr string | JArr "json list" | JObj "(string \<times> json) list"

text \<open>The names in the top-level \<^verbatim>\<open>required\<close> list of a schema.\<close>

definition required_names :: "json \<Rightarrow> string list" where
  "required_names schema =
     (case schema of
        JObj kvs \<Rightarrow> (case map_of kvs ''required'' of
                      Some (JArr ps) \<Rightarrow> concat (map (\<lambda>p. case p of JStr n \<Rightarrow> [n] | _ \<Rightarrow> []) ps)
                    | _ \<Rightarrow> [])
      | _ \<Rightarrow> [])"

text \<open>The required names a mapping with entries \<open>kvs\<close> lacks, in the order of the list.\<close>

definition missing_required :: "(string \<times> json) list \<Rightarrow> json \<Rightarrow> string list" where
  "missing_required kvs schema = filter (\<lambda>p. p \<notin> set (map fst kvs)) (required_names schema)"

definition required_message :: "string \<Rightarrow> string" where
  "required_message p = [CHR 0x27] @ p @ [CHR 0x27] @ '' is a required property''"

text \<open>
  Modelled from the spec: the validator \<^verbatim>\<open>jsonschema.validate\<close> is a library that is
  not among the sources. The specification prescribes standard JSON-Schema validation
  semantics and a diagnostic that describes the first violation. Of these semantics
  the keyword \<^verbatim>\<open>required\<close> is modelled: it constrains instances that are objects and
  no others, and the first required name that an object lacks is reported as a
  \<^verbatim>\<open>ValidationError\<close> whose message is that name in quotes followed by
  "is a required property". The text of \<^verbatim>\<open>str(e)\<close> starts with the message; the model
  keeps the message for it.
\<close>

fun validate_required :: "json \<Rightarrow> json \<Rightarrow> exn + unit" where
  "validate_required (JObj kvs) schema =
     (case missing_required kvs schema of
        [] \<Rightarrow> Inr ()
      | p # ps \<Rightarrow> Inl (ValidationError (required_message p) (required_message p)))"
| "validate_required instance schema = Inr ()"

section \<open>Example environments\<close>

text \<open>Concrete environments at which the theorems below are instantiated.\<close>

definition example_files :: "string \<Rightarrow> exn + string" where
  \<open>example_files p =
     (if p = ''/etc/apt/apt.conf.d/50unattended-upgrades''
        then Inr ''Unattended-Upgrade::Allowed-Origins { };''
      else if p = ''/etc/apt/apt.conf.d/20auto-upgrades''
        then Inr ''APT::Periodic::Update-Package-Lists "1"; APT::Periodic::Unattended-Upgrade "1";''
      else if p = ''cfg.yml'' then Inr ''port: 8080''
      else if p = ''cfg.json'' then Inr ''{"port": 8080}''
      else if p = ''empty.json'' then Inr ''{}''
      else if p = ''schema.json'' then Inr ''{"required": ["port"]}''
      else if p = ''secret.json'' then Inl (OtherException ''Permission denied'')
      else Inl (FileNotFoundError (''No such file or directory: '' @ p)))\<close>

definition example_yaml :: "string \<Rightarrow> exn + json" where
  "example_yaml text =
     (if text = ''port: 8080'' then Inr (JObj [(''port'', JInt 8080)])
      else Inl (YAMLError ''could not parse''))"

definition example_json :: "string \<Rightarrow> exn + json" where
  \<open>example_json text =
     (if text = ''{"port": 8080}'' then Inr (JObj [(''port'', JInt 8080)])
      else if text = ''{}'' then Inr (JObj [])
      else if text = ''{"required": ["port"]}''
        then Inr (JObj [(''required'', JArr [JStr ''port''])])
      else Inl (JSONDecodeError ''Expecting value''))\<close>

text \<open>A host with the package installed and both files configured.\<close>

definition host_ok :: "json env" where
  "host_ok = \<lparr>
     subprocess_run = (\<lambda>argv. Inr 0),
     path_exists = (\<lambda>p. p = ''/etc/apt/apt.conf.d/50unattended-upgrades''
                       \<or> p = ''/etc/apt/apt.conf.d/20auto-upgrades''),
     read_file = example_files,
     yaml_safe_load = example_yaml,
     json_load = example_json,
     validate = validate_required \<rparr>"

text \<open>The same host without the package: \<^verbatim>\<open>dpkg -s\<close> exits with status 1.\<close>

definition host_no_package :: "json env" where
  "host_no_package = host_ok \<lparr> subprocess_run := (\<lambda>argv. Inr 1) \<rparr>"

text \<open>The same host without a \<^verbatim>\<open>dpkg\<close> binary: the invocation raises.\<close>

definition host_no_dpkg :: "json env" where
  "host_no_dpkg = host_ok \<lparr> subprocess_run :=
     (\<lambda>argv. Inl (FileNotFoundError
        (''[Errno 2] No such file or directory: '' @ [CHR 0x27] @ ''dpkg'' @ [CHR 0x27]))) \<rparr>"

text \<open>The same host with neither configuration file.\<close>

definition host_no_files :: "json env" where
  "host_no_files = host_ok \<lparr> path_exists := (\<lambda>p. False) \<rparr>"

text \<open>A host without the package, without the files and with unreadable paths.\<close>

definition host_bare :: "json env" where
  "host_bare = host_no_package \<lparr> path_exists := (\<lambda>p. False),
     read_file := (\<lambda>p. Inl (OtherException ''Permission denied'')) \<rparr>"


section \<open>Facts about the string functions\<close>

lemma startswith_iff: "startswith s p \<longleftrightarrow> (\<exists>b. s = p @ b)"
  by (induction s p rule: startswith.induct) auto

lemma endswith_iff: "endswith s p \<longleftrightarrow> (\<exists>a. s = a @ p)"
proof -
  have "endswith s p \<longleftrightarrow> (\<exists>b. rev s = rev p @ b)"
    by (simp add: endswith_def startswith_iff)
  also have "\<dots> \<longleftrightarrow> (\<exists>a. s = a @ p)"
  proof
    assume "\<exists>b. rev s = rev p @ b"
    then obtain b where "rev s = rev p @ b" ..
    then have "rev (rev s) = rev (rev p @ b)" by simp
    then have "s = rev b @ p" by simp
    then show "\<exists>a. s = a @ p" ..
  next
    assume "\<exists>a. s = a @ p"
    then obtain a where "s = a @ p" ..
    then have "rev s = rev p @ rev a" by simp
    then show "\<exists>b. rev s = rev p @ b" ..
  qed
  finally show ?thesis .
qed

lemma str_contains_iff: "str_contains s p \<longleftrightarrow> (\<exists>a b. s = a @ p @ b)"
proof (induction s)
  case Nil
  then show ?case by auto
next
  case (Cons c cs)
  show ?case
  proof
    assume "str_contains (c # cs) p"
    then consider "startswith (c # cs) p" | "str_contains cs p" by auto
    then show "\<exists>a b. c # cs = a @ p @ b"
    proof cases
      case 1
      then obtain b where "c # cs = p @ b" by (auto simp: startswith_iff)
      then have "c # cs = [] @ p @ b" by simp
      then show ?thesis by blast
    next
      case 2
      then obtain a b where "cs = a @ p @ b" using Cons.IH by auto
      then have "c # cs = (c # a) @ p @ b" by simp
      then show ?thesis by blast
    qed
  next
    assume "\<exists>a b. c # cs = a @ p @ b"
    then obtain a b where ab: "c # cs = a @ p @ b" by blast
    show "str_contains (c # cs) p"
    proof (cases a)
      case Nil
      with ab have "startswith (c # cs) p" by (auto simp: startswith_iff)
      then show ?thesis by simp
    next
      case (Cons x xs)
      with ab have "cs = xs @ p @ b" by simp
      then have "str_contains cs p" using Cons.IH by blast
      then show ?thesis by simp
    qed
  qed
qed

lemma str_contains_append: "str_contains m p \<Longrightarrow> str_contains (a @ m) p"
proof -
  assume "str_contains m p"
  then obtain x y where "m = x @ p @ y" by (auto simp: str_contains_iff)
  then have "a @ m = (a @ x) @ p @ y" by simp
  then show ?thesis unfolding str_contains_iff by blast
qed


section \<open>Properties of check_unattended_upgrades\<close>

lemma ball_steps: "(\<forall>k \<in> {1..5::nat}. P k) \<longleftrightarrow> P 1 \<and> P 2 \<and> P 3 \<and> P 4 \<and> P 5"
proof -
  have "{1..5::nat} = {1, 2, 3, 4, 5}" by auto
  then show ?thesis by simp
qed

lemma check_handler_message: "snd (fst (check_handler e)) \<noteq> []"
  by (cases e) simp_all

lemma check_handler_disabled: "\<not> fst (fst (check_handler e))"
  by (cases e) simp_all

text \<open>
  C1: in every environment, whatever the package query, the existence tests and the
  reads return or raise, the method returns a pair \<open>(enabled, message)\<close> whose
  message is not empty; \<open>enabled\<close> is true exactly when none of the five steps
  fails, and it is false whenever the body of the \<^verbatim>\<open>try\<close> block raises.
\<close>

theorem check_unattended_upgrades_never_raises:
  "snd (fst (check_unattended_upgrades env)) \<noteq> []
   \<and> fst (fst (check_unattended_upgrades env)) = (\<forall>k \<in> {1..5}. \<not> step_fails env k)
   \<and> (\<forall>e. check_body env = Inl e \<longrightarrow> \<not> fst (fst (check_unattended_upgrades env)))"
proof (intro conjI)
  show "snd (fst (check_unattended_upgrades env)) \<noteq> []"
    by (simp add: check_unattended_upgrades_def check_body_def check_auto_updates_def
          check_handler_message split: sum.splits)
  show "fst (fst (check_unattended_upgrades env)) = (\<forall>k \<in> {1..5}. \<not> step_fails env k)"
    unfolding ball_steps
    by (simp add: check_unattended_upgrades_def check_body_def check_auto_updates_def
          step_fails_def check_handler_disabled split: sum.splits)
  show "\<forall>e. check_body env = Inl e \<longrightarrow> \<not> fst (fst (check_unattended_upgrades env))"
    by (simp add: check_unattended_upgrades_def check_handler_disabled)
qed

theorem check_unattended_upgrades_never_raises_witness:
  "snd (fst (check_unattended_upgrades host_bare)) \<noteq> []
   \<and> \<not> fst (fst (check_unattended_upgrades host_bare))
   \<and> step_fails host_bare 1"
proof -
  have fails: "step_fails host_bare 1"
    by (simp add: step_fails_def host_bare_def host_no_package_def host_ok_def)
  have "(1::nat) \<in> {1..5}" by simp
  with fails have some: "\<not> (\<forall>k \<in> {1..5}. \<not> step_fails host_bare k)" by blast
  from check_unattended_upgrades_never_raises [of host_bare] some fails
  show ?thesis by blast
qed


text \<open>
  C2: when the package query returns 0, the first file exists and its text holds
  \<^verbatim>\<open>Unattended-Upgrade::Allowed-Origins\<close>, and the second file exists and its text
  holds both periodic directives, the method returns \<open>enabled = True\<close> with the
  message "Unattended upgrades are enabled and properly configured."
\<close>

theorem enabled_when_properly_configured:
  assumes \<open>subprocess_run env [''dpkg'', ''-s'', ''unattended-upgrades''] = Inr 0\<close>
    and \<open>path_exists env ''/etc/apt/apt.conf.d/50unattended-upgrades''\<close>
    and \<open>read_file env ''/etc/apt/apt.conf.d/50unattended-upgrades'' = Inr content\<close>
    and \<open>str_contains content ''Unattended-Upgrade::Allowed-Origins''\<close>
    and \<open>path_exists env ''/etc/apt/apt.conf.d/20auto-upgrades''\<close>
    and \<open>read_file env ''/etc/apt/apt.conf.d/20auto-upgrades'' = Inr auto_updates_content\<close>
    and \<open>str_contains auto_updates_content ''APT::Periodic::Update-Package-Lists "1";''\<close>
    and \<open>str_contains auto_updates_content ''APT::Periodic::Unattended-Upgrade "1";''\<close>
  shows \<open>fst (check_unattended_upgrades env) =
    (True, ''Unattended upgrades are enabled and properly configured.'')\<close>
  using assms
  by (simp add: check_unattended_upgrades_def check_body_def check_auto_updates_def
      dpkg_argv_def auto_upgrades_file_def auto_updates_file_def allowed_origins_key_def
      update_package_lists_def periodic_unattended_upgrade_def)

lemma host_ok_first_file:
  \<open>read_file host_ok ''/etc/apt/apt.conf.d/50unattended-upgrades''
     = Inr ''Unattended-Upgrade::Allowed-Origins { };''\<close>
  by (simp add: host_ok_def example_files_def)

lemma host_ok_second_file:
  \<open>read_file host_ok ''/etc/apt/apt.conf.d/20auto-upgrades''
     = Inr ''APT::Periodic::Update-Package-Lists "1"; APT::Periodic::Unattended-Upgrade "1";''\<close>
  by (simp add: host_ok_def example_files_def)

lemma first_file_has_key:
  \<open>str_contains ''Unattended-Upgrade::Allowed-Origins { };'' ''Unattended-Upgrade::Allowed-Origins''\<close>
  by simp

lemma second_file_has_lists:
  \<open>str_contains ''APT::Periodic::Update-Package-Lists "1"; APT::Periodic::Unattended-Upgrade "1";''
      ''APT::Periodic::Update-Package-Lists "1";''\<close>
  by simp

lemma second_file_has_upgrade:
  \<open>str_contains ''APT::Periodic::Update-Package-Lists "1"; APT::Periodic::Unattended-Upgrade "1";''
      ''APT::Periodic::Unattended-Upgrade "1";''\<close>
  by simp

theorem enabled_when_properly_configured_witness:
  \<open>fst (check_unattended_upgrades host_ok) =
    (True, ''Unattended upgrades are enabled and properly configured.'')\<close>
proof (rule enabled_when_properly_configured)
  show \<open>subprocess_run host_ok [''dpkg'', ''-s'', ''unattended-upgrades''] = Inr 0\<close>
    by (simp add: host_ok_def)
  show \<open>path_exists host_ok ''/etc/apt/apt.conf.d/50unattended-upgrades''\<close>
    by (simp add: host_ok_def)
  show \<open>path_exists host_ok ''/etc/apt/apt.conf.d/20auto-upgrades''\<close>
    by (simp add: host_ok_def)
  show \<open>read_file host_ok ''/etc/apt/apt.conf.d/50unattended-upgrades''
     = Inr ''Unattended-Upgrade::Allowed-Origins { };''\<close>
    by (rule host_ok_first_file)
  show \<open>read_file host_ok ''/etc/apt/apt.conf.d/20auto-upgrades''
     = Inr ''APT::Periodic::Update-Package-Lists "1"; APT::Periodic::Unattended-Upgrade "1";''\<close>
    by (rule host_ok_second_file)
  show \<open>str_contains ''Unattended-Upgrade::Allowed-Origins { };'' ''Unattended-Upgrade::Allowed-Origins''\<close>
    by (rule first_file_has_key)
  show \<open>str_contains ''APT::Periodic::Update-Package-Lists "1"; APT::Periodic::Unattended-Upgrade "1";''
      ''APT::Periodic::Update-Package-Lists "1";''\<close>
    by (rule second_file_has_lists)
  show \<open>str_contains ''APT::Periodic::Update-Package-Lists "1"; APT::Periodic::Unattended-Upgrade "1";''
      ''APT::Periodic::Unattended-Upgrade "1";''\<close>
    by (rule second_file_has_upgrade)
qed


text \<open>
  C5: when the package is installed (\<^verbatim>\<open>dpkg -s\<close> returns 0) and
  \<^verbatim>\<open>/etc/apt/apt.conf.d/50unattended-upgrades\<close> does not exist, the method returns
  \<open>enabled = False\<close> with the message
  "Configuration file not found: /etc/apt/apt.conf.d/50unattended-upgrades".
\<close>

theorem missing_auto_upgrades_file:
  assumes "subprocess_run env [''dpkg'', ''-s'', ''unattended-upgrades''] = Inr 0"
    and "\<not> path_exists env ''/etc/apt/apt.conf.d/50unattended-upgrades''"
  shows "fst (check_unattended_upgrades env) =
    (False, ''Configuration file not found: /etc/apt/apt.conf.d/50unattended-upgrades'')"
  using assms
  by (simp add: check_unattended_upgrades_def check_body_def dpkg_argv_def auto_upgrades_file_def)

theorem missing_auto_upgrades_file_witness:
  "fst (check_unattended_upgrades host_no_files) =
    (False, ''Configuration file not found: /etc/apt/apt.conf.d/50unattended-upgrades'')"
  using missing_auto_upgrades_file [of host_no_files]
  by (simp add: host_no_files_def host_ok_def)

lemma first_failing_step_cases:
  assumes "first_failing_step env k"
  shows "k = 1 \<or> k = 2 \<or> k = 3 \<or> k = 4 \<or> k = 5"
  using assms unfolding first_failing_step_def by arith

lemma first_failing_step_earlier:
  assumes "first_failing_step env k" and "1 \<le> j" and "j < k"
  shows "\<not> step_fails env j"
  using assms unfolding first_failing_step_def by simp

lemma agree_uptoD:
  assumes "agree_upto env env' k" and "1 \<le> j" and "j \<le> k"
  shows "step_input env' j = step_input env j"
  using assms unfolding agree_upto_def by simp

lemma check_at_step_1:
  assumes "step_fails env 1"
  shows "check_unattended_upgrades env =
     (case subprocess_run env dpkg_argv of
        Inl e \<Rightarrow> check_handler e
      | Inr returncode \<Rightarrow> ((False, ''Unattended upgrades package is not installed.''), []))"
  using assms
  by (simp add: step_fails_def check_unattended_upgrades_def check_body_def split: sum.splits)

lemma check_at_step_2:
  assumes "\<not> step_fails env 1" and "step_fails env 2"
  shows "check_unattended_upgrades env =
     ((False, ''Configuration file not found: '' @ auto_upgrades_file), [])"
  using assms
  by (simp add: step_fails_def check_unattended_upgrades_def check_body_def split: sum.splits)

lemma check_at_step_3:
  assumes "\<not> step_fails env 1" and "\<not> step_fails env 2" and "step_fails env 3"
  shows "check_unattended_upgrades env =
     (case read_file env auto_upgrades_file of
        Inl e \<Rightarrow> check_handler e
      | Inr content \<Rightarrow>
          ((False, ''Unattended-Upgrade::Allowed-Origins not properly configured.''), []))"
  using assms
  by (simp add: step_fails_def check_unattended_upgrades_def check_body_def split: sum.splits)

lemma check_at_step_4:
  assumes "\<not> step_fails env 1" and "\<not> step_fails env 2" and "\<not> step_fails env 3"
    and "step_fails env 4"
  shows "check_unattended_upgrades env =
     ((False, ''Configuration file not found: '' @ auto_updates_file), [])"
  using assms
  by (simp add: step_fails_def check_unattended_upgrades_def check_body_def
      check_auto_updates_def split: sum.splits)

lemma check_at_step_5:
  assumes "\<not> step_fails env 1" and "\<not> step_fails env 2" and "\<not> step_fails env 3"
    and "\<not> step_fails env 4" and "step_fails env 5"
  shows "check_unattended_upgrades env =
     (case read_file env auto_updates_file of
        Inl e \<Rightarrow> check_handler e
      | Inr content \<Rightarrow> ((False, ''Automatic updates are not enabled in APT::Periodic.''), []))"
  using assms
  by (auto simp: step_fails_def check_unattended_upgrades_def check_body_def
      check_auto_updates_def split: sum.splits)

lemma step_fails_cong:
  assumes "step_input env' j = step_input env j"
  shows "step_fails env' j = step_fails env j"
  using assms by (simp add: step_fails_def step_input_def split: if_splits)

lemma first_failing_step_agree:
  assumes "first_failing_step env k" and "agree_upto env env' k"
  shows "first_failing_step env' k"
  using assms unfolding first_failing_step_def
  by (auto simp: step_fails_cong [OF agree_uptoD [OF assms(2)]])

lemma first_failing_step_result:
  assumes "first_failing_step env k"
  shows "fst (check_unattended_upgrades env) = step_verdict k (step_input env k)"
proof -
  note e = first_failing_step_earlier [OF assms]
  have f: "step_fails env k" using assms by (simp add: first_failing_step_def)
  from first_failing_step_cases [OF assms]
  consider "k = 1" | "k = 2" | "k = 3" | "k = 4" | "k = 5" by blast
  then show ?thesis
  proof cases
    case 1
    with f show ?thesis
      by (simp add: check_at_step_1 step_verdict_def step_input_def split: sum.splits)
  next
    case 2
    with f e [of 1] show ?thesis
      by (simp add: check_at_step_2 step_verdict_def step_input_def)
  next
    case 3
    with f e [of 1] e [of 2] show ?thesis
      by (simp add: check_at_step_3 step_verdict_def step_input_def split: sum.splits)
  next
    case 4
    with f e [of 1] e [of 2] e [of 3] show ?thesis
      by (simp add: check_at_step_4 step_verdict_def step_input_def)
  next
    case 5
    with f e [of 1] e [of 2] e [of 3] e [of 4] show ?thesis
      by (simp add: check_at_step_5 step_verdict_def step_input_def split: sum.splits)
  qed
qed

lemma step_verdict_disabled: "\<not> fst (step_verdict k input)"
  by (simp add: step_verdict_def check_handler_disabled split: observation.splits sum.splits)

text \<open>
  C3: the detection short-circuits. When step \<open>k\<close> is the first step that fails in
  an environment, every environment that agrees with it on what steps 1 to \<open>k\<close>
  consume gets the same returned pair; that pair is the verdict of step \<open>k\<close>, computed
  from the input of step \<open>k\<close> alone, and it has \<open>enabled = False\<close>. What later steps
  would consume does not matter.
\<close>

theorem short_circuit:
  assumes "first_failing_step env k" and "agree_upto env env' k"
  shows "fst (check_unattended_upgrades env') = fst (check_unattended_upgrades env)
    \<and> fst (check_unattended_upgrades env) = step_verdict k (step_input env k)
    \<and> \<not> fst (fst (check_unattended_upgrades env))"
proof -
  have k: "1 \<le> k" using assms(1) by (simp add: first_failing_step_def)
  have same: "step_input env' k = step_input env k"
    using agree_uptoD [OF assms(2) k] by simp
  have r: "fst (check_unattended_upgrades env) = step_verdict k (step_input env k)"
    by (rule first_failing_step_result [OF assms(1)])
  have r': "fst (check_unattended_upgrades env') = step_verdict k (step_input env' k)"
    by (rule first_failing_step_result [OF first_failing_step_agree [OF assms]])
  have "\<not> fst (fst (check_unattended_upgrades env))"
    unfolding r by (rule step_verdict_disabled)
  with r r' same show ?thesis by simp
qed

theorem short_circuit_witness:
  "first_failing_step host_no_package 1 \<and> agree_upto host_no_package host_bare 1
   \<and> fst (check_unattended_upgrades host_bare) = fst (check_unattended_upgrades host_no_package)
   \<and> fst (check_unattended_upgrades host_no_package)
       = (False, ''Unattended upgrades package is not installed.'')"
proof -
  have f: "first_failing_step host_no_package 1"
    by (simp add: first_failing_step_def step_fails_def host_no_package_def host_ok_def)
  have a: "agree_upto host_no_package host_bare 1"
    by (simp add: agree_upto_def step_input_def host_bare_def host_no_package_def host_ok_def)
  have v: "step_verdict 1 (step_input host_no_package 1)
       = (False, ''Unattended upgrades package is not installed.'')"
    by (simp add: step_verdict_def step_input_def host_no_package_def host_ok_def)
  from short_circuit [OF f a] f a v show ?thesis by simp
qed

text \<open>
  When the \<^verbatim>\<open>dpkg\<close> binary is missing, \<^verbatim>\<open>subprocess.run\<close> raises
  \<^verbatim>\<open>FileNotFoundError\<close>; the handler of line 61 answers, and the message is not
  "Unattended upgrades package is not installed."
\<close>

theorem dpkg_missing_counterexample:
  "subprocess_run host_no_dpkg dpkg_argv
     = Inl (FileNotFoundError
         (''[Errno 2] No such file or directory: '' @ [CHR 0x27] @ ''dpkg'' @ [CHR 0x27]))
   \<and> fst (check_unattended_upgrades host_no_dpkg)
     = (False, ''Error: File not found: [Errno 2] No such file or directory: ''
          @ [CHR 0x27] @ ''dpkg'' @ [CHR 0x27])
   \<and> fst (check_unattended_upgrades host_no_dpkg)
     \<noteq> (False, ''Unattended upgrades package is not installed.'')"
  by (simp add: host_no_dpkg_def host_ok_def check_unattended_upgrades_def check_body_def)

text \<open>
  C4, as the code has it: when the package query runs and returns a non-zero exit
  status, the method returns \<open>enabled = False\<close> with the message "Unattended upgrades
  package is not installed."; when the invocation itself raises, the method returns
  \<open>enabled = False\<close> with a message that starts with "Error: " and names the exception:
  "File not found: ..." for a \<^verbatim>\<open>FileNotFoundError\<close>, "Subprocess error: ..." for a
  \<^verbatim>\<open>CalledProcessError\<close>, "An unexpected error occurred: ..." otherwise.
\<close>

theorem package_query_verdict:
  "(\<forall>returncode. subprocess_run env dpkg_argv = Inr returncode \<and> returncode \<noteq> 0 \<longrightarrow>
      fst (check_unattended_upgrades env)
        = (False, ''Unattended upgrades package is not installed.''))
   \<and> (\<forall>e. subprocess_run env dpkg_argv = Inl e \<longrightarrow>
      fst (check_unattended_upgrades env)
        = (False, ''Error: '' @
            (case e of
               FileNotFoundError s \<Rightarrow> ''File not found: '' @ s
             | CalledProcessError s \<Rightarrow> ''Subprocess error: '' @ s
             | _ \<Rightarrow> ''An unexpected error occurred: '' @ str_of e)))"
proof (intro conjI allI impI)
  fix returncode
  assume "subprocess_run env dpkg_argv = Inr returncode \<and> returncode \<noteq> 0"
  then show "fst (check_unattended_upgrades env)
        = (False, ''Unattended upgrades package is not installed.'')"
    by (simp add: check_unattended_upgrades_def check_body_def)
next
  fix e
  assume "subprocess_run env dpkg_argv = Inl e"
  then show "fst (check_unattended_upgrades env)
        = (False, ''Error: '' @
            (case e of
               FileNotFoundError s \<Rightarrow> ''File not found: '' @ s
             | CalledProcessError s \<Rightarrow> ''Subprocess error: '' @ s
             | _ \<Rightarrow> ''An unexpected error occurred: '' @ str_of e))"
    by (cases e) (simp_all add: check_unattended_upgrades_def check_body_def)
qed

theorem package_query_verdict_witness:
  "subprocess_run host_no_package dpkg_argv = Inr 1
   \<and> fst (check_unattended_upgrades host_no_package)
       = (False, ''Unattended upgrades package is not installed.'')
   \<and> fst (check_unattended_upgrades host_no_dpkg)
       = (False, ''Error: File not found: [Errno 2] No such file or directory: ''
            @ [CHR 0x27] @ ''dpkg'' @ [CHR 0x27])"
proof -
  have a: "subprocess_run host_no_package dpkg_argv = Inr 1 \<and> (1::int) \<noteq> 0"
    by (simp add: host_no_package_def host_ok_def)
  have b: "subprocess_run host_no_dpkg dpkg_argv
     = Inl (FileNotFoundError
         (''[Errno 2] No such file or directory: '' @ [CHR 0x27] @ ''dpkg'' @ [CHR 0x27]))"
    by (simp add: host_no_dpkg_def host_ok_def)
  from package_query_verdict [of host_no_package] a
  have "fst (check_unattended_upgrades host_no_package)
       = (False, ''Unattended upgrades package is not installed.'')" by blast
  moreover from package_query_verdict [of host_no_dpkg] b
  have "fst (check_unattended_upgrades host_no_dpkg)
       = (False, ''Error: '' @ ''File not found: ''
            @ (''[Errno 2] No such file or directory: '' @ [CHR 0x27] @ ''dpkg'' @ [CHR 0x27]))"
    by simp
  ultimately show ?thesis using a by simp
qed


section \<open>Properties of audit_config_file\<close>

lemma audit_handler_false: "\<not> fst (audit_handler e)"
  by (cases e) simp_all

lemma audit_validate_true:
  "(\<exists>l. audit_validate env config_file schema_file config_data = Inr (True, l)) =
     (\<exists>schema_text schema_data. read_file env schema_file = Inr schema_text
        \<and> json_load env schema_text = Inr schema_data
        \<and> validate env config_data schema_data = Inr ())"
  by (auto simp: audit_validate_def split: sum.splits)

lemma audit_validate_result:
  "audit_validate env config_file schema_file config_data = Inr r \<Longrightarrow> fst r"
  by (auto simp: audit_validate_def split: sum.splits)

text \<open>
  C6: for every pair of paths and every environment the method returns a boolean. It
  returns \<open>True\<close> exactly when the configuration file is read and parsed, the schema
  file is read and parsed, and the validator accepts; so a missing or unreadable file,
  a parse error, a schema violation or any other exception gives \<open>False\<close>. In
  particular every exception raised in the \<^verbatim>\<open>try\<close> block gives \<open>False\<close>.
\<close>

theorem audit_config_file_never_raises:
  "fst (audit_config_file env config_file schema_file) =
     (\<exists>text config_data schema_text schema_data.
        read_file env config_file = Inr text
        \<and> (if endswith config_file ''.yaml'' \<or> endswith config_file ''.yml''
            then yaml_safe_load env text = Inr config_data
            else endswith config_file ''.json'' \<and> json_load env text = Inr config_data)
        \<and> read_file env schema_file = Inr schema_text
        \<and> json_load env schema_text = Inr schema_data
        \<and> validate env config_data schema_data = Inr ())
   \<and> (\<forall>e. audit_body env config_file schema_file = Inl e \<longrightarrow>
        \<not> fst (audit_config_file env config_file schema_file))"
proof
  show "fst (audit_config_file env config_file schema_file) =
     (\<exists>text config_data schema_text schema_data.
        read_file env config_file = Inr text
        \<and> (if endswith config_file ''.yaml'' \<or> endswith config_file ''.yml''
            then yaml_safe_load env text = Inr config_data
            else endswith config_file ''.json'' \<and> json_load env text = Inr config_data)
        \<and> read_file env schema_file = Inr schema_text
        \<and> json_load env schema_text = Inr schema_data
        \<and> validate env config_data schema_data = Inr ())"
    by (auto simp: audit_config_file_def audit_body_def audit_validate_def audit_handler_false
        split: sum.splits)
  show "\<forall>e. audit_body env config_file schema_file = Inl e \<longrightarrow>
        \<not> fst (audit_config_file env config_file schema_file)"
    by (simp add: audit_config_file_def audit_handler_false)
qed

theorem audit_config_file_never_raises_witness:
  "audit_body host_ok ''secret.json'' ''schema.json'' = Inl (OtherException ''Permission denied'')
   \<and> \<not> fst (audit_config_file host_ok ''secret.json'' ''schema.json'')"
proof -
  have "endswith ''secret.json'' ''.json''" "\<not> endswith ''secret.json'' ''.yaml''"
    "\<not> endswith ''secret.json'' ''.yml''"
    by (simp_all add: endswith_def)
  then have b: "audit_body host_ok ''secret.json'' ''schema.json''
      = Inl (OtherException ''Permission denied'')"
    by (simp add: audit_body_def host_ok_def example_files_def)
  with audit_config_file_never_raises [of host_ok "''secret.json''" "''schema.json''"]
  show ?thesis by blast
qed

text \<open>
  C7: when the name of the configuration file ends in none of \<^verbatim>\<open>.yaml\<close>,
  \<^verbatim>\<open>.yml\<close>, \<^verbatim>\<open>.json\<close>, the method returns \<open>False\<close> and logs the
  unsupported-type error, whatever the files hold and whether or not they exist.
\<close>

theorem unsupported_extension_invalid:
  assumes "\<not> endswith config_file ''.yaml''" and "\<not> endswith config_file ''.yml''"
    and "\<not> endswith config_file ''.json''"
  shows "audit_config_file env config_file schema_file =
    (False, [(ERROR, ''Unsupported configuration file type. Only YAML and JSON are supported.'')])"
  using assms by (simp add: audit_config_file_def audit_body_def)

theorem unsupported_extension_invalid_witness:
  "audit_config_file host_ok ''cfg.txt'' ''schema.json'' =
    (False, [(ERROR, ''Unsupported configuration file type. Only YAML and JSON are supported.'')])"
  by (rule unsupported_extension_invalid) (simp_all add: endswith_def)






lemma json_not_yaml:
  assumes "endswith f ''.json''"
  shows "\<not> endswith f ''.yaml''" and "\<not> endswith f ''.yml''"
  using assms by (auto simp: endswith_iff)

text \<open>
  C9: a file named with suffix \<^verbatim>\<open>.yml\<close> whose YAML parses to a document and a file
  named with suffix \<^verbatim>\<open>.json\<close> whose JSON parses to the same document get the same
  returned boolean against any schema file.
\<close>

theorem yml_json_same_verdict:
  assumes "endswith yml_file ''.yml''" and "endswith json_file ''.json''"
    and "read_file env yml_file = Inr yaml_text"
    and "yaml_safe_load env yaml_text = Inr config_data"
    and "read_file env json_file = Inr json_text"
    and "json_load env json_text = Inr config_data"
  shows "fst (audit_config_file env yml_file schema_file)
       = fst (audit_config_file env json_file schema_file)"
proof -
  have y: "audit_config_file env yml_file schema_file =
     (case audit_validate env yml_file schema_file config_data of
        Inr result \<Rightarrow> result | Inl e \<Rightarrow> audit_handler e)"
    using assms(1,3,4) by (simp add: audit_config_file_def audit_body_def)
  have j: "audit_config_file env json_file schema_file =
     (case audit_validate env json_file schema_file config_data of
        Inr result \<Rightarrow> result | Inl e \<Rightarrow> audit_handler e)"
    using assms(2,5,6) json_not_yaml [OF assms(2)]
    by (simp add: audit_config_file_def audit_body_def)
  show ?thesis unfolding y j
    by (simp add: audit_validate_def split: sum.splits)
qed

theorem yml_json_same_verdict_witness:
  "fst (audit_config_file host_ok ''cfg.yml'' ''schema.json'')
     = fst (audit_config_file host_ok ''cfg.json'' ''schema.json'')
   \<and> fst (audit_config_file host_ok ''cfg.json'' ''schema.json'')"
proof -
  have 1: "endswith ''cfg.yml'' ''.yml''" by (simp add: endswith_def)
  have 2: "endswith ''cfg.json'' ''.json''" by (simp add: endswith_def)
  have 3: "read_file host_ok ''cfg.yml'' = Inr ''port: 8080''"
    by (simp add: host_ok_def example_files_def)
  have 4: "yaml_safe_load host_ok ''port: 8080'' = Inr (JObj [(''port'', JInt 8080)])"
    by (simp add: host_ok_def example_yaml_def)
  have 5: \<open>read_file host_ok ''cfg.json'' = Inr ''{"port": 8080}''\<close>
    by (simp add: host_ok_def example_files_def)
  have 6: \<open>json_load host_ok ''{"port": 8080}'' = Inr (JObj [(''port'', JInt 8080)])\<close>
    by (simp add: host_ok_def example_json_def)
  have 7: \<open>read_file host_ok ''schema.json'' = Inr ''{"required": ["port"]}''\<close>
    by (simp add: host_ok_def example_files_def)
  have 8: \<open>json_load host_ok ''{"required": ["port"]}''
      = Inr (JObj [(''required'', JArr [JStr ''port''])])\<close>
    by (simp add: host_ok_def example_json_def)
  have 9: "validate host_ok (JObj [(''port'', JInt 8080)])
      (JObj [(''required'', JArr [JStr ''port''])]) = Inr ()"
    by (simp add: host_ok_def required_names_def missing_required_def)
  have "fst (audit_config_file host_ok ''cfg.json'' ''schema.json'')"
    using 2 json_not_yaml [OF 2] 5 6 7 8 9
    by (simp add: audit_config_file_def audit_body_def audit_validate_def)
  with yml_json_same_verdict [OF 1 2 3 4 5 6, of "''schema.json''"] show ?thesis by simp
qed

lemma lower_char_simps:
  "lower_char CHR ''.'' = CHR ''.''" "lower_char CHR ''y'' = CHR ''y''"
  "lower_char CHR ''a'' = CHR ''a''" "lower_char CHR ''m'' = CHR ''m''"
  "lower_char CHR ''l'' = CHR ''l''" "lower_char CHR ''j'' = CHR ''j''"
  "lower_char CHR ''s'' = CHR ''s''" "lower_char CHR ''o'' = CHR ''o''"
  "lower_char CHR ''n'' = CHR ''n''"
  by (simp_all add: lower_char_def)

lemma endswith_append_Cons:
  "endswith (stem @ suffix) p = startswith (rev suffix @ rev stem) (rev p)"
  by (simp add: endswith_def)

lemma yaml_case_variant:
  assumes "lower suffix = ''.yaml''" and "suffix \<noteq> ''.yaml''"
  shows "\<not> endswith (stem @ suffix) ''.yaml''" and "\<not> endswith (stem @ suffix) ''.yml''"
    and "\<not> endswith (stem @ suffix) ''.json''"
proof -
  from assms(1) obtain c1 c2 c3 c4 c5 where
    s: "suffix = [c1, c2, c3, c4, c5]" and
    l: "lower_char c1 = CHR ''.''" "lower_char c2 = CHR ''y''" "lower_char c3 = CHR ''a''"
       "lower_char c4 = CHR ''m''" "lower_char c5 = CHR ''l''"
    by (auto simp: lower_def map_eq_Cons_conv)
  show "\<not> endswith (stem @ suffix) ''.yaml''"
    using assms(2) by (auto simp: s endswith_append_Cons)
  show "\<not> endswith (stem @ suffix) ''.yml''"
    using l lower_char_simps by (auto simp: s endswith_append_Cons)
  show "\<not> endswith (stem @ suffix) ''.json''"
    using l lower_char_simps by (auto simp: s endswith_append_Cons)
qed

lemma yml_case_variant:
  assumes "lower suffix = ''.yml''" and "suffix \<noteq> ''.yml''"
  shows "\<not> endswith (stem @ suffix) ''.yaml''" and "\<not> endswith (stem @ suffix) ''.yml''"
    and "\<not> endswith (stem @ suffix) ''.json''"
proof -
  from assms(1) obtain c1 c2 c3 c4 where
    s: "suffix = [c1, c2, c3, c4]" and
    l: "lower_char c1 = CHR ''.''" "lower_char c2 = CHR ''y''" "lower_char c3 = CHR ''m''"
       "lower_char c4 = CHR ''l''"
    by (auto simp: lower_def map_eq_Cons_conv)
  show "\<not> endswith (stem @ suffix) ''.yaml''"
    using l lower_char_simps by (auto simp: s endswith_append_Cons)
  show "\<not> endswith (stem @ suffix) ''.yml''"
    using assms(2) by (auto simp: s endswith_append_Cons)
  show "\<not> endswith (stem @ suffix) ''.json''"
    using l lower_char_simps by (auto simp: s endswith_append_Cons)
qed

lemma json_case_variant:
  assumes "lower suffix = ''.json''" and "suffix \<noteq> ''.json''"
  shows "\<not> endswith (stem @ suffix) ''.yaml''" and "\<not> endswith (stem @ suffix) ''.yml''"
    and "\<not> endswith (stem @ suffix) ''.json''"
proof -
  from assms(1) obtain c1 c2 c3 c4 c5 where
    s: "suffix = [c1, c2, c3, c4, c5]" and
    l: "lower_char c1 = CHR ''.''" "lower_char c2 = CHR ''j''" "lower_char c3 = CHR ''s''"
       "lower_char c4 = CHR ''o''" "lower_char c5 = CHR ''n''"
    by (auto simp: lower_def map_eq_Cons_conv)
  show "\<not> endswith (stem @ suffix) ''.yaml''"
    using l lower_char_simps by (auto simp: s endswith_append_Cons)
  show "\<not> endswith (stem @ suffix) ''.yml''"
    using l lower_char_simps by (auto simp: s endswith_append_Cons)
  show "\<not> endswith (stem @ suffix) ''.json''"
    using assms(2) by (auto simp: s endswith_append_Cons)
qed

text \<open>
  C10: the dispatch on the extension is case-sensitive. When the name is a stem followed
  by a suffix that equals \<^verbatim>\<open>.yaml\<close>, \<^verbatim>\<open>.yml\<close> or \<^verbatim>\<open>.json\<close> after lowering
  its letters but is none of the three as written, the method treats the file as an
  unsupported type and returns \<open>False\<close>, whatever the file holds.
\<close>

theorem extension_dispatch_case_sensitive:
  assumes "lower suffix = ''.yaml'' \<or> lower suffix = ''.yml'' \<or> lower suffix = ''.json''"
    and "suffix \<noteq> ''.yaml''" and "suffix \<noteq> ''.yml''" and "suffix \<noteq> ''.json''"
  shows "audit_config_file env (stem @ suffix) schema_file =
    (False, [(ERROR, ''Unsupported configuration file type. Only YAML and JSON are supported.'')])"
proof -
  have "\<not> endswith (stem @ suffix) ''.yaml'' \<and> \<not> endswith (stem @ suffix) ''.yml''
      \<and> \<not> endswith (stem @ suffix) ''.json''"
    using assms yaml_case_variant [of suffix stem] yml_case_variant [of suffix stem]
      json_case_variant [of suffix stem]
    by blast
  then show ?thesis by (simp add: audit_config_file_def audit_body_def)
qed

theorem extension_dispatch_case_sensitive_witness:
  "lower ''.YAML'' = ''.yaml''
   \<and> audit_config_file host_ok ''cfg.YAML'' ''schema.json'' =
    (False, [(ERROR, ''Unsupported configuration file type. Only YAML and JSON are supported.'')])
   \<and> audit_config_file host_ok ''cfg.Json'' ''schema.json'' =
    (False, [(ERROR, ''Unsupported configuration file type. Only YAML and JSON are supported.'')])"
proof -
  have a: "lower ''.YAML'' = ''.yaml''" by code_simp
  have b: "lower ''.Json'' = ''.json''" by code_simp
  have "audit_config_file host_ok (''cfg'' @ ''.YAML'') ''schema.json'' =
    (False, [(ERROR, ''Unsupported configuration file type. Only YAML and JSON are supported.'')])"
    by (rule extension_dispatch_case_sensitive) (simp_all add: a)
  moreover have "audit_config_file host_ok (''cfg'' @ ''.Json'') ''schema.json'' =
    (False, [(ERROR, ''Unsupported configuration file type. Only YAML and JSON are supported.'')])"
    by (rule extension_dispatch_case_sensitive) (simp_all add: b)
  ultimately show ?thesis using a by simp
qed

end
